theory Spec2Isabelle
  imports Complex_Main
begin

section \<open>Host language values\<close>

text \<open>
  The observability module of the repository (\<^verbatim>\<open>packages/observability/src/index.ts\<close>) is
  embedded function by function. A JavaScript \<^verbatim>\<open>number\<close> is modelled as an exact rational:
  IEEE rounding, NaN and the infinities are not represented. A JavaScript string is a
  \<^typ>\<open>string\<close>. The conversion of a number to text (template literals, \<^verbatim>\<open>JSON.stringify\<close>)
  belongs to the language, not to the repository, and is a parameter \<open>numToString\<close> of
  every function that prints a number (for the tracer and the logger, a field of the host).
\<close>

type_synonym number = rat

text \<open>
  \<open>decimal\<close> is one instance of the number conversion, used for concrete examples. It agrees
  with JavaScript on integral values of magnitude below \<open>10^21\<close>.
\<close>

fun digits :: "nat \<Rightarrow> string" where
  "digits n = (if n < 10 then [char_of (48 + n)]
               else digits (n div 10) @ [char_of (48 + n mod 10)])"

declare digits.simps [simp del]

definition intToString :: "int \<Rightarrow> string" where
  "intToString i = (if i < 0 then ''-'' @ digits (nat (- i)) else digits (nat i))"

definition decimal :: "number \<Rightarrow> string" where
  "decimal q = (case quotient_of q of (p, d) \<Rightarrow>
                  if d = 1 then intToString p else intToString p @ ''/'' @ intToString d)"

text \<open>\<^verbatim>\<open>Array.prototype.join\<close>.\<close>

fun join :: "string \<Rightarrow> string list \<Rightarrow> string" where
  "join sep [] = []"
| "join sep [x] = x"
| "join sep (x # y # ys) = x @ sep @ join sep (y # ys)"

text \<open>
  A JavaScript \<^verbatim>\<open>Map\<close> keeps its entries in insertion order; \<^verbatim>\<open>set\<close> on a present key
  replaces the value in place, on an absent key appends the entry.
\<close>

fun Map_set :: "('k \<times> 'v) list \<Rightarrow> 'k \<Rightarrow> 'v \<Rightarrow> ('k \<times> 'v) list" where
  "Map_set [] k v = [(k, v)]"
| "Map_set ((k', v') # ps) k v =
     (if k' = k then (k, v) # ps else (k', v') # Map_set ps k v)"

definition Map_get :: "('k \<times> 'v) list \<Rightarrow> 'k \<Rightarrow> 'v option" where
  "Map_get ps k = map_of ps k"

text \<open>\<^verbatim>\<open>x || 0\<close> on the result of \<^verbatim>\<open>Map.get\<close>: an absent entry and a stored zero both give 0.\<close>

definition or_zero :: "number option \<Rightarrow> number" where
  "or_zero x = (case x of None \<Rightarrow> 0 | Some v \<Rightarrow> if v = 0 then 0 else v)"

text \<open>\<^verbatim>\<open>x || []\<close>: an array is always truthy, so only an absent entry gives the fresh array.\<close>

definition or_empty :: "number list option \<Rightarrow> number list" where
  "or_empty x = (case x of None \<Rightarrow> [] | Some vs \<Rightarrow> vs)"

text \<open>
  The string operations \<^verbatim>\<open>toPrometheus\<close> uses, each with a one-character pattern:
  \<^verbatim>\<open>s.split(c)[0]\<close>, \<^verbatim>\<open>s.replace(c, r)\<close> (first occurrence only), \<^verbatim>\<open>s.includes(c)\<close> and
  \<^verbatim>\<open>s.slice(s.indexOf(c))\<close> when \<open>c\<close> occurs.
\<close>

definition split_head :: "char \<Rightarrow> string \<Rightarrow> string" where
  "split_head c s = takeWhile (\<lambda>x. x \<noteq> c) s"

fun replace_first :: "char \<Rightarrow> string \<Rightarrow> string \<Rightarrow> string" where
  "replace_first c r [] = []"
| "replace_first c r (x # xs) = (if x = c then r @ xs else x # replace_first c r xs)"

definition str_includes :: "char \<Rightarrow> string \<Rightarrow> bool" where
  "str_includes c s = (c \<in> set s)"

definition slice_from :: "char \<Rightarrow> string \<Rightarrow> string" where
  "slice_from c s = dropWhile (\<lambda>x. x \<noteq> c) s"

section \<open>Metrics\<close>

text \<open>
  A label object \<^verbatim>\<open>Record<string, string>\<close> is given by its \<^verbatim>\<open>Object.entries\<close> sequence:
  the properties in the order the object enumerates them, which for keys that are not
  array indices is the order the caller wrote them.
\<close>

type_synonym labels = "(string \<times> string) list"

record MetricsConfig =
  mc_service :: string
  mc_endpoint :: "string option"
  mc_prefix :: "string option"

record Metrics =
  config :: MetricsConfig
  counters :: "(string \<times> number) list"
  gauges :: "(string \<times> number) list"
  histograms :: "(string \<times> number list) list"

text \<open>The constructor: \<^verbatim>\<open>{ prefix: '', ...config }\<close> and three empty maps.\<close>

definition Metrics_new :: "MetricsConfig \<Rightarrow> Metrics" where
  "Metrics_new cfg =
     \<lparr>config = cfg\<lparr>mc_prefix := (case mc_prefix cfg of None \<Rightarrow> Some [] | Some p \<Rightarrow> Some p)\<rparr>,
      counters = [], gauges = [], histograms = []\<rparr>"

definition getKey :: "MetricsConfig \<Rightarrow> string \<Rightarrow> labels option \<Rightarrow> string" where
  \<open>getKey cfg name labels =
     (let prefix = (case mc_prefix cfg of
                      Some p \<Rightarrow> if p \<noteq> [] then p @ ''_'' else []
                    | None \<Rightarrow> []);
          labelStr = (case labels of
                        Some ls \<Rightarrow> join '','' (map (\<lambda>(k, v). k @ ''="'' @ v @ ''"'') ls)
                      | None \<Rightarrow> [])
      in prefix @ name @ ''{'' @ labelStr @ ''}'')\<close>

text \<open>The default argument \<^verbatim>\<open>value = 1\<close>.\<close>

definition default_one :: "number option \<Rightarrow> number" where
  "default_one v = (case v of None \<Rightarrow> 1 | Some x \<Rightarrow> x)"

definition counter_inc :: "string \<Rightarrow> number option \<Rightarrow> labels option \<Rightarrow> Metrics \<Rightarrow> Metrics" where
  "counter_inc name val labels m =
     (let key = getKey (config m) name labels;
          current = or_zero (Map_get (counters m) key)
      in m\<lparr>counters := Map_set (counters m) key (current + default_one val)\<rparr>)"

definition gauge_set :: "string \<Rightarrow> number \<Rightarrow> labels option \<Rightarrow> Metrics \<Rightarrow> Metrics" where
  "gauge_set name val labels m =
     (let key = getKey (config m) name labels
      in m\<lparr>gauges := Map_set (gauges m) key val\<rparr>)"

definition gauge_inc :: "string \<Rightarrow> number option \<Rightarrow> labels option \<Rightarrow> Metrics \<Rightarrow> Metrics" where
  "gauge_inc name val labels m =
     (let key = getKey (config m) name labels;
          current = or_zero (Map_get (gauges m) key)
      in m\<lparr>gauges := Map_set (gauges m) key (current + default_one val)\<rparr>)"

definition gauge_dec :: "string \<Rightarrow> number option \<Rightarrow> labels option \<Rightarrow> Metrics \<Rightarrow> Metrics" where
  "gauge_dec name val labels m =
     (let key = getKey (config m) name labels;
          current = or_zero (Map_get (gauges m) key)
      in m\<lparr>gauges := Map_set (gauges m) key (current - default_one val)\<rparr>)"

definition histogram_observe :: "string \<Rightarrow> number \<Rightarrow> labels option \<Rightarrow> Metrics \<Rightarrow> Metrics" where
  "histogram_observe name val labels m =
     (let key = getKey (config m) name labels;
          vals = or_empty (Map_get (histograms m) key)
      in m\<lparr>histograms := Map_set (histograms m) key (vals @ [val])\<rparr>)"

text \<open>\<^verbatim>\<open>values.reduce((a, b) => a + b, 0)\<close>.\<close>

definition reduce_sum :: "number list \<Rightarrow> number" where
  "reduce_sum vals = foldl (\<lambda>a b. a + b) 0 vals"

definition counter_lines :: "(number \<Rightarrow> string) \<Rightarrow> string \<times> number \<Rightarrow> string list" where
  "counter_lines numToString kv =
     (case kv of (key, val) \<Rightarrow>
        [''# TYPE '' @ split_head CHR ''{'' key @ '' counter'',
         key @ '' '' @ numToString val])"

definition gauge_lines :: "(number \<Rightarrow> string) \<Rightarrow> string \<times> number \<Rightarrow> string list" where
  "gauge_lines numToString kv =
     (case kv of (key, val) \<Rightarrow>
        [''# TYPE '' @ split_head CHR ''{'' key @ '' gauge'',
         key @ '' '' @ numToString val])"

definition histogram_lines :: "(number \<Rightarrow> string) \<Rightarrow> string \<times> number list \<Rightarrow> string list" where
  \<open>histogram_lines numToString kv =
     (case kv of (key, vals) \<Rightarrow>
        (let name = split_head CHR ''{'' key;
             sum = reduce_sum vals;
             count = of_nat (length vals);
             labelPart = (if str_includes CHR ''{'' key then slice_from CHR ''{'' key else ''{}'')
         in [''# TYPE '' @ name @ '' histogram'',
             replace_first CHR ''}'' '',le="+Inf"}'' key @ '' '' @ numToString count,
             name @ ''_sum'' @ labelPart @ '' '' @ numToString sum,
             name @ ''_count'' @ labelPart @ '' '' @ numToString count]))\<close>

text \<open>The three loops of \<^verbatim>\<open>toPrometheus\<close> push their lines in map order.\<close>

definition toPrometheus_lines :: "(number \<Rightarrow> string) \<Rightarrow> Metrics \<Rightarrow> string list" where
  "toPrometheus_lines numToString m =
     concat (map (counter_lines numToString) (counters m))
     @ concat (map (gauge_lines numToString) (gauges m))
     @ concat (map (histogram_lines numToString) (histograms m))"

definition toPrometheus :: "(number \<Rightarrow> string) \<Rightarrow> Metrics \<Rightarrow> string" where
  "toPrometheus numToString m = join [CHR 0x0A] (toPrometheus_lines numToString m)"

text \<open>A sequence of calls on one registry.\<close>

datatype metric_call =
    CounterInc string "number option" "labels option"
  | GaugeSet string number "labels option"
  | GaugeInc string "number option" "labels option"
  | GaugeDec string "number option" "labels option"
  | HistogramObserve string number "labels option"

fun call :: "metric_call \<Rightarrow> Metrics \<Rightarrow> Metrics" where
  "call (CounterInc name val labels) m = counter_inc name val labels m"
| "call (GaugeSet name val labels) m = gauge_set name val labels m"
| "call (GaugeInc name val labels) m = gauge_inc name val labels m"
| "call (GaugeDec name val labels) m = gauge_dec name val labels m"
| "call (HistogramObserve name val labels) m = histogram_observe name val labels m"

fun calls :: "metric_call list \<Rightarrow> Metrics \<Rightarrow> Metrics" where
  "calls [] m = m"
| "calls (c # cs) m = calls cs (call c m)"

text \<open>What the specification calls the accumulated value of a counter series.\<close>

definition counter_value :: "Metrics \<Rightarrow> string \<Rightarrow> number" where
  "counter_value m key = or_zero (Map_get (counters m) key)"



definition example_config :: MetricsConfig where
  "example_config = \<lparr>mc_service = ''svc'', mc_endpoint = None, mc_prefix = None\<rparr>"


section \<open>The host: clock, random numbers, console\<close>

text \<open>
  Values of type \<^verbatim>\<open>unknown\<close> (log context, event attributes): the JavaScript values that
  \<^verbatim>\<open>JSON.stringify\<close> distinguishes. An object is the list of its properties in creation
  order (the special enumeration order of array-index keys is not represented).
\<close>

datatype jsval =
    JUndefined
  | JNull
  | JBool bool
  | JNum number
  | JStr string
  | JBigInt int
  | JArr "jsval list"
  | JObj "(string \<times> jsval) list"

text \<open>An \<^verbatim>\<open>Error\<close> object, and the values a \<^verbatim>\<open>throw\<close> can carry.\<close>

record js_error =
  error_name :: string
  error_message :: string
  error_stack :: "string option"

datatype thrown = ThrownError js_error | ThrownValue jsval

datatype LogLevel = Debug | Info | Warn | Error | Fatal

record LogEntry =
  entry_level :: LogLevel
  entry_message :: string
  entry_timestamp :: int
  entry_service :: string
  entry_context :: "(string \<times> jsval) list option"
  entry_error :: "js_error option"
  entry_traceId :: "string option"
  entry_spanId :: "string option"

datatype attr_value = AStr string | ANum number | ABool bool

datatype span_status = StatusOk | StatusError | StatusUnset

record SpanEvent =
  event_name :: string
  event_timestamp :: int
  event_attributes :: "(string \<times> jsval) list option"

text \<open>
  The \<^verbatim>\<open>Span\<close> interface has two implementations in the module: the class \<^verbatim>\<open>SpanImpl\<close> and
  the object literal \<^verbatim>\<open>startSpan\<close> returns when sampling rejects the call. The field \<open>impl\<close>
  says which methods the object carries.
\<close>

datatype span_impl = SpanImpl | NoopSpan

record Span =
  spanName :: string
  traceId :: string
  spanId :: string
  startTime :: int
  endTime :: "int option"
  attributes :: "string \<rightharpoonup> attr_value"
  events :: "SpanEvent list"
  status :: span_status
  impl :: span_impl

datatype console_call = ConsoleLog string | ConsoleWarn string | ConsoleError string

text \<open>
  The world outside the module: \<open>clock\<close> is the sequence of readings \<^verbatim>\<open>Date.now()\<close> will
  return and \<open>ticks\<close> how many were taken; \<open>random\<close> and \<open>draws\<close> the same for
  \<^verbatim>\<open>Math.random()\<close>; \<open>console\<close> the calls made on the console so far; \<open>handled\<close> the entries
  handed to a logger's custom handler so far; \<open>ended\<close> the spans handed to the tracer's
  completion callback so far, one element for each invocation.
\<close>

record world =
  clock :: "nat \<Rightarrow> int"
  ticks :: nat
  random :: "nat \<Rightarrow> rat"
  draws :: nat
  console :: "console_call list"
  handled :: "LogEntry list"
  ended :: "Span list"

definition Date_now :: "world \<Rightarrow> int \<times> world" where
  "Date_now w = (clock w (ticks w), w\<lparr>ticks := Suc (ticks w)\<rparr>)"

definition Math_random :: "world \<Rightarrow> rat \<times> world" where
  "Math_random w = (random w (draws w), w\<lparr>draws := Suc (draws w)\<rparr>)"

text \<open>
  The builtins whose text output the module only passes on, and the process environment:
  number to string, JSON quoting of a string, \<^verbatim>\<open>Date.prototype.toISOString\<close>, and
  \<^verbatim>\<open>process.env.NODE_ENV\<close>.
\<close>

record host =
  numToString :: "number \<Rightarrow> string"
  quoteJSON :: "string \<Rightarrow> string"
  toISOString :: "int \<Rightarrow> string"
  NODE_ENV :: "string option"

text \<open>\<^verbatim>\<open>isDev\<close> and \<^verbatim>\<open>isProd\<close> of \<^verbatim>\<open>packages/core/src/index.ts\<close>.\<close>

definition isDev :: "host \<Rightarrow> bool" where
  "isDev h = (NODE_ENV h = Some ''development'')"

definition isProd :: "host \<Rightarrow> bool" where
  "isProd h = (NODE_ENV h = Some ''production'')"



text \<open>A value \<^verbatim>\<open>JSON.stringify\<close> accepts: no BigInt anywhere inside.\<close>

fun serializable :: "jsval \<Rightarrow> bool"
  and serializable_elements :: "jsval list \<Rightarrow> bool"
  and serializable_properties :: "(string \<times> jsval) list \<Rightarrow> bool"
where
  "serializable (JBigInt i) = False"
| "serializable (JArr vs) = serializable_elements vs"
| "serializable (JObj ps) = serializable_properties ps"
| "serializable JUndefined = True"
| "serializable JNull = True"
| "serializable (JBool b) = True"
| "serializable (JNum n) = True"
| "serializable (JStr s) = True"
| "serializable_elements [] = True"
| "serializable_elements (v # vs) = (serializable v \<and> serializable_elements vs)"
| "serializable_properties [] = True"
| "serializable_properties (p # ps) = (serializable (snd p) \<and> serializable_properties ps)"

text \<open>A stand-in host for concrete examples; the texts it produces are used as opaque.\<close>

definition example_host :: host where
  \<open>example_host =
     \<lparr>numToString = decimal,
      quoteJSON = (\<lambda>s. ''"'' @ s @ ''"''),
      toISOString = (\<lambda>t. intToString t),
      NODE_ENV = Some ''development''\<rparr>\<close>

definition example_world :: world where
  "example_world =
     \<lparr>clock = (\<lambda>i. 1000 + int i), ticks = 0, random = (\<lambda>i. 1 / 2), draws = 0,
      console = [], handled = [], ended = []\<rparr>"


section \<open>Tracer\<close>

record SpanOptions =
  options_attributes :: "(string \<rightharpoonup> attr_value) option"
  parent :: "Span option"

record TracerConfig =
  tc_service :: string
  tc_endpoint :: "string option"
  sampleRate :: "number option"

record Tracer =
  tconfig :: TracerConfig
  spans :: "Span list"

text \<open>\<^verbatim>\<open>chars[i]\<close> appended to a string: out of range the index gives \<^verbatim>\<open>undefined\<close>.\<close>

definition char_at :: "string \<Rightarrow> int \<Rightarrow> string" where
  "char_at cs i = (if 0 \<le> i \<and> i < int (length cs) then [cs ! nat i] else ''undefined'')"

definition hex_chars :: string where
  "hex_chars = ''0123456789abcdef''"

text \<open>The loop of \<^verbatim>\<open>generateId\<close>, by the number of iterations left.\<close>

fun generateId_loop :: "nat \<Rightarrow> string \<Rightarrow> world \<Rightarrow> string \<times> world" where
  "generateId_loop 0 result w = (result, w)"
| "generateId_loop (Suc n) result w =
     (case Math_random w of
        (r, w') \<Rightarrow>
          generateId_loop n
            (result @ char_at hex_chars \<lfloor>r * of_nat (length hex_chars)\<rfloor>) w')"

definition generateId :: "nat \<Rightarrow> world \<Rightarrow> string \<times> world" where
  "generateId len w = generateId_loop len [] w"

text \<open>
  The constructor of \<^verbatim>\<open>SpanImpl\<close>. The completion callback it stores is always the
  creating tracer's \<^verbatim>\<open>onSpanEnd\<close>; \<^verbatim>\<open>SpanImpl_end\<close> below calls that directly.
\<close>

definition SpanImpl_new :: "string \<Rightarrow> string \<Rightarrow> SpanOptions \<Rightarrow> world \<Rightarrow> Span \<times> world" where
  "SpanImpl_new nm tid options w =
     (case generateId 16 w of
        (sid, w1) \<Rightarrow>
          (case Date_now w1 of
             (now, w2) \<Rightarrow>
               (\<lparr>spanName = nm, traceId = tid, spanId = sid, startTime = now,
                 endTime = None,
                 attributes = (case options_attributes options of
                                 Some attrs \<Rightarrow> attrs
                               | None \<Rightarrow> Map.empty),
                 events = [], status = StatusUnset, impl = SpanImpl\<rparr>, w2)))"

text \<open>What a mutator returns: the span it was called on, or a new empty object.\<close>

datatype returned = This | EmptyObject

definition SpanImpl_setAttribute :: "string \<Rightarrow> attr_value \<Rightarrow> Span \<Rightarrow> returned \<times> Span" where
  "SpanImpl_setAttribute k v s = (This, s\<lparr>attributes := (attributes s)(k \<mapsto> v)\<rparr>)"

definition SpanImpl_addEvent ::
  "string \<Rightarrow> (string \<times> jsval) list option \<Rightarrow> Span \<Rightarrow> world \<Rightarrow> (returned \<times> Span) \<times> world" where
  "SpanImpl_addEvent nm attrs s w =
     (case Date_now w of
        (now, w') \<Rightarrow>
          ((This, s\<lparr>events := events s
                      @ [\<lparr>event_name = nm, event_timestamp = now, event_attributes = attrs\<rparr>]\<rparr>),
           w'))"

text \<open>\<^verbatim>\<open>if (message)\<close>: the optional string is given and not empty.\<close>

definition SpanImpl_setStatus :: "span_status \<Rightarrow> string option \<Rightarrow> Span \<Rightarrow> returned \<times> Span" where
  "SpanImpl_setStatus st msg s =
     (let s1 = s\<lparr>status := st\<rparr>;
          s2 = (case msg of
                  Some m \<Rightarrow>
                    if m \<noteq> []
                    then s1\<lparr>attributes := (attributes s1)(''status.message'' \<mapsto> AStr m)\<rparr>
                    else s1
                | None \<Rightarrow> s1)
      in (This, s2))"

text \<open>\<^verbatim>\<open>x || Date.now()\<close> on the optional end time: zero is falsy as well.\<close>

definition endTime_or_now :: "int option \<Rightarrow> world \<Rightarrow> int \<times> world" where
  "endTime_or_now e w =
     (case e of
        Some t \<Rightarrow> if t \<noteq> 0 then (t, w) else Date_now w
      | None \<Rightarrow> Date_now w)"

definition console_log :: "string \<Rightarrow> world \<Rightarrow> world" where
  "console_log text w = w\<lparr>console := console w @ [ConsoleLog text]\<rparr>"



text \<open>
  The completion callback. Its invocation is recorded in \<open>ended\<close>; the production branch of
  the source is an empty block.
\<close>

definition Tracer_onSpanEnd :: "host \<Rightarrow> Tracer \<Rightarrow> Span \<Rightarrow> world \<Rightarrow> world" where
  "Tracer_onSpanEnd h t s w =
     (let w0 = w\<lparr>ended := ended w @ [s]\<rparr>
      in if isDev h
         then (case endTime_or_now (endTime s) w0 of
                 (e, w1) \<Rightarrow>
                   console_log
                     (''[TRACE] '' @ spanName s @ '' (''
                        @ numToString h (of_int (e - startTime s)) @ ''ms) trace=''
                        @ take 8 (traceId s)) w1)
         else w0)"

definition SpanImpl_end :: "host \<Rightarrow> Tracer \<Rightarrow> Span \<Rightarrow> world \<Rightarrow> Span \<times> world" where
  "SpanImpl_end h t s w =
     (case Date_now w of
        (now, w1) \<Rightarrow>
          (let s1 = s\<lparr>endTime := Some now\<rparr>
           in (s1, Tracer_onSpanEnd h t s1 w1)))"

text \<open>The object literal of the rejected call and its four methods.\<close>

definition noop_span :: "string \<Rightarrow> Span" where
  "noop_span nm =
     \<lparr>spanName = nm, traceId = [], spanId = [], startTime = 0, endTime = None,
      attributes = Map.empty, events = [], status = StatusUnset, impl = NoopSpan\<rparr>"

definition noop_setAttribute :: "string \<Rightarrow> attr_value \<Rightarrow> Span \<Rightarrow> returned \<times> Span" where
  "noop_setAttribute k v s = (EmptyObject, s)"

definition noop_addEvent ::
  "string \<Rightarrow> (string \<times> jsval) list option \<Rightarrow> Span \<Rightarrow> world \<Rightarrow> (returned \<times> Span) \<times> world" where
  "noop_addEvent nm attrs s w = ((EmptyObject, s), w)"

definition noop_setStatus :: "span_status \<Rightarrow> string option \<Rightarrow> Span \<Rightarrow> returned \<times> Span" where
  "noop_setStatus st msg s = (EmptyObject, s)"

definition noop_end :: "Span \<Rightarrow> world \<Rightarrow> Span \<times> world" where
  "noop_end s w = (s, w)"

text \<open>A method call on a \<^verbatim>\<open>Span\<close> runs the method its object carries.\<close>

definition Span_setAttribute :: "string \<Rightarrow> attr_value \<Rightarrow> Span \<Rightarrow> returned \<times> Span" where
  "Span_setAttribute k v s =
     (case impl s of SpanImpl \<Rightarrow> SpanImpl_setAttribute k v s | NoopSpan \<Rightarrow> noop_setAttribute k v s)"

definition Span_addEvent ::
  "string \<Rightarrow> (string \<times> jsval) list option \<Rightarrow> Span \<Rightarrow> world \<Rightarrow> (returned \<times> Span) \<times> world" where
  "Span_addEvent nm attrs s w =
     (case impl s of SpanImpl \<Rightarrow> SpanImpl_addEvent nm attrs s w | NoopSpan \<Rightarrow> noop_addEvent nm attrs s w)"

definition Span_setStatus :: "span_status \<Rightarrow> string option \<Rightarrow> Span \<Rightarrow> returned \<times> Span" where
  "Span_setStatus st msg s =
     (case impl s of SpanImpl \<Rightarrow> SpanImpl_setStatus st msg s | NoopSpan \<Rightarrow> noop_setStatus st msg s)"

definition Span_end :: "host \<Rightarrow> Tracer \<Rightarrow> Span \<Rightarrow> world \<Rightarrow> Span \<times> world" where
  "Span_end h t s w =
     (case impl s of SpanImpl \<Rightarrow> SpanImpl_end h t s w | NoopSpan \<Rightarrow> noop_end s w)"

text \<open>The constructor: \<^verbatim>\<open>{ sampleRate: 1.0, ...config }\<close>.\<close>

definition Tracer_new :: "TracerConfig \<Rightarrow> Tracer" where
  "Tracer_new cfg =
     \<lparr>tconfig = cfg\<lparr>sampleRate := (case sampleRate cfg of None \<Rightarrow> Some 1 | Some r \<Rightarrow> Some r)\<rparr>,
      spans = []\<rparr>"

text \<open>\<^verbatim>\<open>this.config.sampleRate || 1.0\<close>: an absent rate and the rate 0 both give 1.\<close>

definition or_one :: "number option \<Rightarrow> number" where
  "or_one x = (case x of None \<Rightarrow> 1 | Some v \<Rightarrow> if v = 0 then 1 else v)"

definition Tracer_shouldSample :: "Tracer \<Rightarrow> world \<Rightarrow> bool \<times> world" where
  "Tracer_shouldSample t w =
     (case Math_random w of (r, w') \<Rightarrow> (r < or_one (sampleRate (tconfig t)), w'))"

text \<open>\<^verbatim>\<open>options.parent?.traceId || generateId(32)\<close>.\<close>

definition parent_traceId_or_new :: "SpanOptions \<Rightarrow> world \<Rightarrow> string \<times> world" where
  "parent_traceId_or_new options w =
     (case parent options of
        Some p \<Rightarrow> if traceId p \<noteq> [] then (traceId p, w) else generateId 32 w
      | None \<Rightarrow> generateId 32 w)"

text \<open>
  \<^verbatim>\<open>startSpan\<close>. The array \<^verbatim>\<open>spans\<close> is only ever pushed to, never read, so it is kept as the
  list of the spans as they were when registered.
\<close>

definition Tracer_startSpan ::
  "string \<Rightarrow> SpanOptions \<Rightarrow> Tracer \<Rightarrow> world \<Rightarrow> Span \<times> Tracer \<times> world" where
  "Tracer_startSpan nm options t w =
     (case Tracer_shouldSample t w of
        (sample, w1) \<Rightarrow>
          if \<not> sample then (noop_span nm, t, w1)
          else
            (case parent_traceId_or_new options w1 of
               (tid, w2) \<Rightarrow>
                 (case SpanImpl_new nm tid options w2 of
                    (sp, w3) \<Rightarrow> (sp, t\<lparr>spans := spans t @ [sp]\<rparr>, w3))))"

text \<open>\<^verbatim>\<open>error instanceof Error ? error.message : 'Unknown error'\<close>.\<close>

definition message_of :: "thrown \<Rightarrow> string" where
  "message_of e = (case e of ThrownError err \<Rightarrow> error_message err | ThrownValue v \<Rightarrow> ''Unknown error'')"

text \<open>
  \<^verbatim>\<open>trace\<close>. The wrapped function receives the span and may change it, the tracer and the
  world; it ends by returning a value (\<open>Inr\<close>) or by throwing or rejecting (\<open>Inl\<close>). A
  function whose promise never settles is not represented. The result carries the span
  as the call leaves it.
\<close>

definition Tracer_trace ::
  "host \<Rightarrow> string
   \<Rightarrow> (Span \<Rightarrow> Tracer \<Rightarrow> world \<Rightarrow> (thrown + 'a) \<times> Span \<times> Tracer \<times> world)
   \<Rightarrow> SpanOptions \<Rightarrow> Tracer \<Rightarrow> world \<Rightarrow> (thrown + 'a) \<times> Span \<times> Tracer \<times> world" where
  "Tracer_trace h nm fn options t w =
     (case Tracer_startSpan nm options t w of
        (sp, t1, w1) \<Rightarrow>
          (case fn sp t1 w1 of
             (Inr result, sp1, t2, w2) \<Rightarrow>
               (case Span_setStatus StatusOk None sp1 of
                  (_, sp2) \<Rightarrow>
                    (case Span_end h t2 sp2 w2 of
                       (sp3, w3) \<Rightarrow> (Inr result, sp3, t2, w3)))
           | (Inl err, sp1, t2, w2) \<Rightarrow>
               (case Span_setStatus StatusError (Some (message_of err)) sp1 of
                  (_, sp2) \<Rightarrow>
                    (case Span_end h t2 sp2 w2 of
                       (sp3, w3) \<Rightarrow> (Inl err, sp3, t2, w3)))))"

text \<open>\<open>n\<close> calls of \<^verbatim>\<open>end()\<close> in a row on one span.\<close>

fun Span_end_times :: "nat \<Rightarrow> host \<Rightarrow> Tracer \<Rightarrow> Span \<Rightarrow> world \<Rightarrow> Span \<times> world" where
  "Span_end_times 0 h t s w = (s, w)"
| "Span_end_times (Suc n) h t s w =
     (case Span_end h t s w of (s', w') \<Rightarrow> Span_end_times n h t s' w')"


definition example_tracer_config :: "number option \<Rightarrow> TracerConfig" where
  "example_tracer_config rate = \<lparr>tc_service = ''svc'', tc_endpoint = None, sampleRate = rate\<rparr>"

definition no_options :: SpanOptions where
  "no_options = \<lparr>options_attributes = None, parent = None\<rparr>"


text \<open>Concrete inputs for the examples.\<close>

definition example_span :: Span where
  "example_span =
     fst (SpanImpl_new ''op'' ''0123456789abcdef0123456789abcdef'' no_options example_world)"

definition error_x :: thrown where
  "error_x = ThrownError \<lparr>error_name = ''Error'', error_message = ''x'', error_stack = None\<rparr>"

definition throwing_fn :: "Span \<Rightarrow> Tracer \<Rightarrow> world \<Rightarrow> (thrown + nat) \<times> Span \<times> Tracer \<times> world" where
  "throwing_fn s t w = (Inl error_x, s, t, w)"

definition returning_fn :: "Span \<Rightarrow> Tracer \<Rightarrow> world \<Rightarrow> (thrown + nat) \<times> Span \<times> Tracer \<times> world" where
  "returning_fn s t w = (Inr 42, s, t, w)"


section \<open>Logger\<close>

datatype destination = Console | Json | Custom

text \<open>
  The configuration as the caller gives it, and as the constructor stores it
  (\<^verbatim>\<open>Required<LoggerConfig>\<close>). A custom handler is a function of the caller: all the module
  sees of it is whether the call returns (\<open>None\<close>) or throws.
\<close>

record LoggerConfig =
  lc_service :: string
  lc_level :: "LogLevel option"
  lc_pretty :: "bool option"
  lc_destination :: "destination option"
  lc_customHandler :: "(LogEntry \<Rightarrow> thrown option) option"

record RequiredLoggerConfig =
  service :: string
  level :: LogLevel
  pretty :: bool
  destination :: destination
  customHandler :: "LogEntry \<Rightarrow> thrown option"

record Logger =
  lconfig :: RequiredLoggerConfig
  currentTraceId :: "string option"
  currentSpanId :: "string option"


definition Logger_new :: "host \<Rightarrow> LoggerConfig \<Rightarrow> Logger" where
  "Logger_new h cfg =
     \<lparr>lconfig =
        \<lparr>service = lc_service cfg,
         level = (case lc_level cfg of Some l \<Rightarrow> l | None \<Rightarrow> if isDev h then Debug else Info),
         pretty = (case lc_pretty cfg of Some b \<Rightarrow> b | None \<Rightarrow> isDev h),
         destination = (case lc_destination cfg of Some d \<Rightarrow> d | None \<Rightarrow> Console),
         customHandler = (case lc_customHandler cfg of Some f \<Rightarrow> f | None \<Rightarrow> (\<lambda>entry. None))\<rparr>,
      currentTraceId = None, currentSpanId = None\<rparr>"

definition Logger_setTraceContext :: "string \<Rightarrow> string \<Rightarrow> Logger \<Rightarrow> Logger" where
  "Logger_setTraceContext tid sid lg = lg\<lparr>currentTraceId := Some tid, currentSpanId := Some sid\<rparr>"

definition Logger_clearTraceContext :: "Logger \<Rightarrow> Logger" where
  "Logger_clearTraceContext lg = lg\<lparr>currentTraceId := None, currentSpanId := None\<rparr>"


fun level_name :: "LogLevel \<Rightarrow> string" where
  "level_name Debug = ''debug''"
| "level_name Info = ''info''"
| "level_name Warn = ''warn''"
| "level_name Error = ''error''"
| "level_name Fatal = ''fatal''"




definition optional_string :: "string option \<Rightarrow> jsval" where
  "optional_string x = (case x of None \<Rightarrow> JUndefined | Some t \<Rightarrow> JStr t)"

text \<open>
  The object literal of the JSON format: four fixed properties, the spread of the context
  (a key already present keeps its place and takes the new value), then \<^verbatim>\<open>traceId\<close>,
  \<^verbatim>\<open>spanId\<close> and \<^verbatim>\<open>error\<close>.
\<close>

definition json_record :: "host \<Rightarrow> LogEntry \<Rightarrow> (string \<times> jsval) list" where
  "json_record h entry =
     (let fixed = [(''timestamp'', JStr (toISOString h (entry_timestamp entry))),
                   (''level'', JStr (level_name (entry_level entry))),
                   (''service'', JStr (entry_service entry)),
                   (''message'', JStr (entry_message entry))];
          spread = foldl (\<lambda>ps kv. Map_set ps (fst kv) (snd kv)) fixed
                     (case entry_context entry of None \<Rightarrow> [] | Some ctx \<Rightarrow> ctx);
          p1 = Map_set spread ''traceId'' (optional_string (entry_traceId entry));
          p2 = Map_set p1 ''spanId'' (optional_string (entry_spanId entry))
      in Map_set p2 ''error''
           (case entry_error entry of
              Some err \<Rightarrow>
                JObj [(''name'', JStr (error_name err)),
                      (''message'', JStr (error_message err)),
                      (''stack'', optional_string (error_stack err))]
            | None \<Rightarrow> JUndefined))"








text \<open>\<^verbatim>\<open>child\<close>: a new logger on the same configuration; the given context is not used.\<close>

definition Logger_child :: "(string \<times> jsval) list \<Rightarrow> Logger \<Rightarrow> Logger" where
  "Logger_child ctx lg =
     \<lparr>lconfig = lconfig lg, currentTraceId = currentTraceId lg, currentSpanId = currentSpanId lg\<rparr>"










definition throwing_handler :: "LogEntry \<Rightarrow> thrown option" where
  "throwing_handler entry = Some error_x"

definition example_logger_config :: "destination \<Rightarrow> LoggerConfig" where
  "example_logger_config d =
     \<lparr>lc_service = ''svc'', lc_level = Some Info, lc_pretty = Some False,
      lc_destination = Some d, lc_customHandler = Some throwing_handler\<rparr>"


section \<open>Metrics: properties\<close>


lemma config_call [simp]: "config (call c m) = config m"
  by (cases c)
    (simp_all add: counter_inc_def gauge_set_def gauge_inc_def gauge_dec_def
      histogram_observe_def Let_def)

lemma config_calls [simp]: "config (calls cs m) = config m"
  by (induction cs arbitrary: m) simp_all

subsection \<open>Series keys\<close>

text \<open>
  C1. Two label sets that are equal as mappings but enumerated in different orders should
  resolve to one series. \<^verbatim>\<open>getKey\<close> joins the labels in enumeration order, so the two calls
  of the specification's example create two series of value 1 each instead of one series of
  value 2.
\<close>

theorem getKey_keeps_enumeration_order:
  \<open>map_of [(''a'', ''1''), (''b'', ''2'')] = map_of [(''b'', ''2''), (''a'', ''1'')]
   \<and> counters (counter_inc ''x'' (Some 1) (Some [(''b'', ''2''), (''a'', ''1'')])
                (counter_inc ''x'' (Some 1) (Some [(''a'', ''1''), (''b'', ''2'')])
                  (Metrics_new example_config)))
       = [(''x{a="1",b="2"}'', 1), (''x{b="2",a="1"}'', 1)]\<close>
proof -
  have "map_of [(''a'', ''1''), (''b'', ''2'')] = map_of [(''b'', ''2''), (''a'', ''1'')]"
    by (rule ext) simp
  then show ?thesis
    by (simp add: counter_inc_def Metrics_new_def example_config_def getKey_def Map_get_def
        or_zero_def default_one_def)
qed

subsection \<open>Counters\<close>




lemma counter_value_new [simp]: "counter_value (Metrics_new cfg) key = 0"
  by (simp add: counter_value_def Metrics_new_def Map_get_def or_zero_def)




subsection \<open>Histograms and the exposition text\<close>






text \<open>
  For a prefix and an instrument name that contain no opening brace, the name printed on
  the \<^verbatim>\<open># TYPE\<close>, \<^verbatim>\<open>_sum\<close> and \<^verbatim>\<open>_count\<close> lines is the prefixed instrument name, and the label
  portion is the braces with the labels.
\<close>

lemma getKey_parts:
  assumes "getKey cfg nm labels = pre @ ''{'' @ rest" and "CHR ''{'' \<notin> set pre"
  shows "split_head CHR ''{'' (getKey cfg nm labels) = pre"
    and "slice_from CHR ''{'' (getKey cfg nm labels) = ''{'' @ rest"
proof -
  from assms(2) have "\<forall>x \<in> set pre. x \<noteq> CHR ''{''" by blast
  then show "split_head CHR ''{'' (getKey cfg nm labels) = pre"
    and "slice_from CHR ''{'' (getKey cfg nm labels) = ''{'' @ rest"
    unfolding assms(1) split_head_def slice_from_def
    by (simp_all add: takeWhile_tail dropWhile_append3)
qed

lemma getKey_without_prefix:
  "mc_prefix cfg = None \<or> mc_prefix cfg = Some [] \<Longrightarrow> CHR ''{'' \<notin> set nm \<Longrightarrow>
   split_head CHR ''{'' (getKey cfg nm labels) = nm"
  by (rule getKey_parts(1) [where rest = "drop (Suc (length nm)) (getKey cfg nm labels)"])
    (auto simp: getKey_def)

lemma getKey_with_prefix:
  "mc_prefix cfg = Some p \<Longrightarrow> p \<noteq> [] \<Longrightarrow> CHR ''{'' \<notin> set (p @ nm) \<Longrightarrow>
   split_head CHR ''{'' (getKey cfg nm labels) = p @ ''_'' @ nm"
  by (rule getKey_parts(1)
        [where rest = "drop (Suc (length (p @ ''_'' @ nm))) (getKey cfg nm labels)"])
    (auto simp: getKey_def)







section \<open>Tracer: properties\<close>

subsection \<open>Effects of the single operations\<close>

lemma impl_SpanImpl_new [simp]: "impl (fst (SpanImpl_new nm tid options w)) = SpanImpl"
  by (simp add: SpanImpl_new_def split: prod.splits)

lemma Span_end_SpanImpl:
  assumes "impl s = SpanImpl"
  shows "fst (Span_end h t s w) = s\<lparr>endTime := Some (clock w (ticks w))\<rparr>"
    and "ended (snd (Span_end h t s w)) = ended w @ [s\<lparr>endTime := Some (clock w (ticks w))\<rparr>]"
    and "clock (snd (Span_end h t s w)) = clock w"
    and "random (snd (Span_end h t s w)) = random w"
  using assms
  by (simp_all add: Span_end_def SpanImpl_end_def Date_now_def Tracer_onSpanEnd_def Let_def
      endTime_or_now_def console_log_def split: prod.splits)

lemma Span_end_Noop: "impl s = NoopSpan \<Longrightarrow> Span_end h t s w = (s, w)"
  by (simp add: Span_end_def noop_end_def)

lemma Span_setStatus_SpanImpl:
  assumes "impl s = SpanImpl"
  shows "Span_setStatus st msg s =
     (This, s\<lparr>status := st,
              attributes := (case msg of
                               Some m \<Rightarrow> if m \<noteq> [] then (attributes s)(''status.message'' \<mapsto> AStr m)
                                         else attributes s
                             | None \<Rightarrow> attributes s)\<rparr>)"
  using assms by (simp add: Span_setStatus_def SpanImpl_setStatus_def Let_def split: option.splits)

lemma Span_setStatus_Noop: "impl s = NoopSpan \<Longrightarrow> Span_setStatus st msg s = (EmptyObject, s)"
  by (simp add: Span_setStatus_def noop_setStatus_def)

lemma generateId_loop_world: "snd (generateId_loop n acc w) = w\<lparr>draws := draws w + n\<rparr>"
  by (induction n arbitrary: acc w) (simp_all add: Math_random_def)

lemma generateId_world: "snd (generateId n w) = w\<lparr>draws := draws w + n\<rparr>"
  by (simp add: generateId_def generateId_loop_world)

lemma ended_SpanImpl_new [simp]: "ended (snd (SpanImpl_new nm tid options w)) = ended w"
proof -
  obtain sid w1 where g: "generateId 16 w = (sid, w1)" by (cases "generateId 16 w")
  from generateId_world [of 16 w] g have "ended w1 = ended w" by simp
  with g show ?thesis by (simp add: SpanImpl_new_def Date_now_def)
qed

lemma ended_parent_traceId_or_new [simp]: "ended (snd (parent_traceId_or_new options w)) = ended w"
  by (simp add: parent_traceId_or_new_def generateId_world split: option.splits)


lemma startSpan_sampled:
  assumes "random w (draws w) < or_one (sampleRate (tconfig t))"
  shows "Tracer_startSpan nm options t w =
     (let w1 = w\<lparr>draws := Suc (draws w)\<rparr>;
          p = parent_traceId_or_new options w1;
          q = SpanImpl_new nm (fst p) options (snd p)
      in (fst q, t\<lparr>spans := spans t @ [fst q]\<rparr>, snd q))"
  using assms
  by (simp add: Tracer_startSpan_def Tracer_shouldSample_def Math_random_def Let_def split: prod.splits)

lemma startSpan_rejected:
  assumes "\<not> random w (draws w) < or_one (sampleRate (tconfig t))"
  shows "Tracer_startSpan nm options t w = (noop_span nm, t, w\<lparr>draws := Suc (draws w)\<rparr>)"
  using assms by (simp add: Tracer_startSpan_def Tracer_shouldSample_def Math_random_def)

lemma ended_startSpan: "ended (snd (snd (Tracer_startSpan nm options t w))) = ended w"
proof (cases "random w (draws w) < or_one (sampleRate (tconfig t))")
  case True
  then show ?thesis by (simp add: startSpan_sampled Let_def)
next
  case False
  then show ?thesis by (simp add: startSpan_rejected)
qed

lemma impl_startSpan:
  "impl (fst (Tracer_startSpan nm options t w)) =
     (if random w (draws w) < or_one (sampleRate (tconfig t)) then SpanImpl else NoopSpan)"
  by (simp add: startSpan_sampled startSpan_rejected Let_def noop_span_def)

lemma example_tracer_rate [simp]:
  "sampleRate (tconfig (Tracer_new (example_tracer_config r))) = (case r of None \<Rightarrow> Some 1 | Some x \<Rightarrow> Some x)"
  by (simp add: Tracer_new_def example_tracer_config_def)

lemma example_world_simps [simp]:
  "random example_world i = 1 / 2" "draws example_world = 0" "ended example_world = []"
  "clock example_world i = 1000 + int i" "ticks example_world = 0"
  by (simp_all add: example_world_def)

lemma impl_example_span: "impl example_span = SpanImpl"
  by (simp add: example_span_def)

subsection \<open>Ending a span\<close>

lemma Span_end_times_ended:
  "impl s = SpanImpl \<Longrightarrow>
   length (ended (snd (Span_end_times n h t s w))) = length (ended w) + n
   \<and> impl (fst (Span_end_times n h t s w)) = SpanImpl"
proof (induction n arbitrary: s w)
  case 0
  then show ?case by simp
next
  case (Suc n)
  obtain s' w' where step: "Span_end h t s w = (s', w')"
    by (cases "Span_end h t s w")
  from Span_end_SpanImpl(1,2) [OF Suc.prems, of h t w] step
  have s': "impl s' = SpanImpl" and e: "length (ended w') = Suc (length (ended w))"
    using Suc.prems by simp_all
  from Suc.IH [OF s', of w'] step e show ?case by simp
qed

text \<open>
  C10. On a sampled span every call of \<^verbatim>\<open>end()\<close> overwrites \<open>endTime\<close> with the reading of the
  clock at that call and invokes the completion callback with the span; \<open>n\<close> calls in a row
  invoke the callback exactly \<open>n\<close> times.
\<close>

theorem end_runs_callback_each_time:
  assumes "impl s = SpanImpl"
  shows "endTime (fst (Span_end h t s w)) = Some (clock w (ticks w))
    \<and> ended (snd (Span_end h t s w)) = ended w @ [fst (Span_end h t s w)]
    \<and> length (ended (snd (Span_end_times n h t s w))) = length (ended w) + n"
  using Span_end_SpanImpl(1,2) [OF assms, of h t w] Span_end_times_ended [OF assms, of n h t w]
  by simp

theorem end_runs_callback_each_time_witness:
  "impl example_span = SpanImpl
   \<and> endTime (fst (Span_end example_host (Tracer_new (example_tracer_config None)) example_span example_world)) = Some 1000
   \<and> length (ended (snd (Span_end_times 3 example_host (Tracer_new (example_tracer_config None)) example_span example_world))) = 3"
  using end_runs_callback_each_time [OF impl_example_span, of example_host "Tracer_new (example_tracer_config None)" example_world 3]
  by (simp add: impl_example_span example_world_def)

subsection \<open>Status of a span\<close>

text \<open>
  C8, as stated: the message is recorded under \<^verbatim>\<open>status.message\<close> only when the status is
  \<^verbatim>\<open>error\<close>. The guard of \<^verbatim>\<open>setStatus\<close> tests the message, not the status:
  \<^verbatim>\<open>setStatus('ok', 'done')\<close> records the message.
\<close>

theorem setStatus_ok_records_message:
  "status (snd (Span_setStatus StatusOk (Some ''done'') example_span)) = StatusOk
   \<and> attributes example_span ''status.message'' = None
   \<and> attributes (snd (Span_setStatus StatusOk (Some ''done'') example_span)) ''status.message''
       = Some (AStr ''done'')"
  by (simp add: Span_setStatus_SpanImpl [OF impl_example_span])
    (simp add: example_span_def SpanImpl_new_def no_options_def split: prod.splits)

text \<open>
  C8, amended: on a sampled span \<^verbatim>\<open>setStatus(status, message)\<close> returns the span, sets the
  status field to the given status, records the message under \<^verbatim>\<open>status.message\<close> exactly
  when a non-empty message is given (whatever the status), and changes no other attribute,
  nor the events, the end time or any other field.
\<close>

theorem setStatus_frame:
  assumes "impl s = SpanImpl"
  shows "fst (Span_setStatus st msg s) = This
    \<and> status (snd (Span_setStatus st msg s)) = st
    \<and> attributes (snd (Span_setStatus st msg s)) ''status.message'' =
        (case msg of
           Some m \<Rightarrow> if m \<noteq> [] then Some (AStr m) else attributes s ''status.message''
         | None \<Rightarrow> attributes s ''status.message'')
    \<and> (\<forall>k. k \<noteq> ''status.message'' \<longrightarrow>
          attributes (snd (Span_setStatus st msg s)) k = attributes s k)
    \<and> events (snd (Span_setStatus st msg s)) = events s
    \<and> endTime (snd (Span_setStatus st msg s)) = endTime s
    \<and> snd (Span_setStatus st msg s)
        = s\<lparr>status := st, attributes := attributes (snd (Span_setStatus st msg s))\<rparr>"
  by (simp add: Span_setStatus_SpanImpl [OF assms] split: option.splits)

theorem setStatus_frame_witness:
  "impl example_span = SpanImpl
   \<and> status (snd (Span_setStatus StatusError (Some ''boom'') example_span)) = StatusError
   \<and> attributes (snd (Span_setStatus StatusError (Some ''boom'') example_span)) ''status.message''
       = Some (AStr ''boom'')
   \<and> attributes (snd (Span_setStatus StatusError (Some ''boom'') example_span)) ''other''
       = attributes example_span ''other''
   \<and> endTime (snd (Span_setStatus StatusError (Some ''boom'') example_span)) = endTime example_span"
  using setStatus_frame [OF impl_example_span, of StatusError "Some ''boom''"]
  by (simp add: impl_example_span)

subsection \<open>Sampling\<close>

lemma sampleRate_zero_samples_every_call:
  assumes "sampleRate (tconfig t) = Some 0" and "random w (draws w) < 1"
  shows "impl (fst (Tracer_startSpan nm options t w)) = SpanImpl"
  using assms by (simp add: impl_startSpan or_one_def)

text \<open>
  C3. With \<^verbatim>\<open>sampleRate = 0\<close> every \<^verbatim>\<open>startSpan\<close> should return a no-op span.
  \<^verbatim>\<open>shouldSample\<close> compares the draw with \<^verbatim>\<open>sampleRate || 1.0\<close>, which is 1 for the rate 0:
  the call returns a \<^verbatim>\<open>SpanImpl\<close> whose \<^verbatim>\<open>end()\<close> invokes the completion callback and whose
  \<^verbatim>\<open>setStatus\<close> changes it. And the mutators of the no-op span return a new empty object,
  not the span.
\<close>

theorem sampleRate_zero_still_samples:
  "impl (fst (Tracer_startSpan ''x'' no_options (Tracer_new (example_tracer_config (Some 0))) example_world)) = SpanImpl
   \<and> length (ended (snd (Span_end example_host (Tracer_new (example_tracer_config (Some 0)))
        (fst (Tracer_startSpan ''x'' no_options (Tracer_new (example_tracer_config (Some 0))) example_world))
        (snd (snd (Tracer_startSpan ''x'' no_options (Tracer_new (example_tracer_config (Some 0))) example_world)))))) = 1
   \<and> status (snd (Span_setStatus StatusOk None (fst (Tracer_startSpan ''x'' no_options (Tracer_new (example_tracer_config (Some 0))) example_world)))) = StatusOk
   \<and> fst (Span_setStatus StatusOk None (noop_span ''x'')) = EmptyObject"
proof -
  let ?X = "Tracer_startSpan ''x'' no_options (Tracer_new (example_tracer_config (Some 0))) example_world"
  have i: "impl (fst ?X) = SpanImpl" by (simp add: impl_startSpan or_one_def)
  have e: "ended (snd (snd ?X)) = []" by (simp add: ended_startSpan)
  show ?thesis
    using i e Span_end_SpanImpl(2) [OF i, of example_host "Tracer_new (example_tracer_config (Some 0))" "snd (snd ?X)"]
    by (simp add: Span_setStatus_SpanImpl [OF i] Span_setStatus_Noop noop_span_def)
qed

subsection \<open>Identifiers\<close>








subsection \<open>The scoped helper\<close>

text \<open>
  C2, as stated: after \<^verbatim>\<open>trace\<close> the span's status is \<^verbatim>\<open>ok\<close> when the function returned.
  When sampling rejects the call the span is the no-op span: \<^verbatim>\<open>trace\<close> calls its
  \<^verbatim>\<open>setStatus\<close> and \<^verbatim>\<open>end\<close>, which do nothing, and the status stays \<^verbatim>\<open>unset\<close>.
\<close>

theorem trace_noop_status_unset:
  "fst (Tracer_trace example_host ''job'' returning_fn no_options (Tracer_new (example_tracer_config (Some (1 / 4)))) example_world) = Inr 42
  \<and> status (fst (snd (Tracer_trace example_host ''job'' returning_fn no_options (Tracer_new (example_tracer_config (Some (1 / 4)))) example_world))) = StatusUnset
  \<and> ended (snd (snd (snd (Tracer_trace example_host ''job'' returning_fn no_options (Tracer_new (example_tracer_config (Some (1 / 4)))) example_world)))) = []"
  by (simp add: Tracer_trace_def startSpan_rejected or_one_def returning_fn_def Span_setStatus_def Span_end_def
     noop_span_def noop_setStatus_def noop_end_def)

text \<open>
  C2, amended: \<^verbatim>\<open>trace\<close> hands the caller the outcome of the function unchanged, the value
  it returned or the very value it threw. If the span is a sampled one, then on return its
  status is \<^verbatim>\<open>ok\<close>, on a throw its status is \<^verbatim>\<open>error\<close> and the error's message
  (\<^verbatim>\<open>Unknown error\<close> for a value that is not an \<^verbatim>\<open>Error\<close>) is recorded under
  \<^verbatim>\<open>status.message\<close> unless it is empty; in both cases \<^verbatim>\<open>trace\<close> stamps the end time and
  invokes the completion callback exactly once, after the function has finished. If the span
  is the no-op span, \<^verbatim>\<open>trace\<close> leaves it and the world as the function left them.
\<close>

theorem trace_completes_span:
  assumes start: "Tracer_startSpan nm options t w = (sp, t1, w1)"
    and run: "fn sp t1 w1 = (outcome, sp1, t2, w2)"
  shows "case Tracer_trace h nm fn options t w of
     (res, sp3, t3, w3) \<Rightarrow>
        res = outcome \<and> t3 = t2
        \<and> (impl sp1 = SpanImpl \<longrightarrow>
              status sp3 = (case outcome of Inr v \<Rightarrow> StatusOk | Inl e \<Rightarrow> StatusError)
            \<and> attributes sp3 =
                (case outcome of
                   Inr v \<Rightarrow> attributes sp1
                 | Inl e \<Rightarrow> if message_of e \<noteq> []
                            then (attributes sp1)(''status.message'' \<mapsto> AStr (message_of e))
                            else attributes sp1)
            \<and> events sp3 = events sp1
            \<and> endTime sp3 = Some (clock w2 (ticks w2))
            \<and> ended w3 = ended w2 @ [sp3])
        \<and> (impl sp1 = NoopSpan \<longrightarrow> sp3 = sp1 \<and> w3 = w2)"
proof -
  define st where "st = (case outcome of Inr v \<Rightarrow> StatusOk | Inl e \<Rightarrow> StatusError)"
  define msg where "msg = (case outcome of Inr v \<Rightarrow> None | Inl e \<Rightarrow> Some (message_of e))"
  define sp2 where "sp2 = snd (Span_setStatus st msg sp1)"
  define r where "r = Span_end h t2 sp2 w2"
  have unfold: "Tracer_trace h nm fn options t w = (outcome, fst r, t2, snd r)"
    by (cases outcome)
      (simp_all add: Tracer_trace_def start run r_def sp2_def st_def msg_def split: prod.splits)
  have sampled: "status (fst r) = st \<and> events (fst r) = events sp1
      \<and> attributes (fst r) =
          (case msg of
             Some m \<Rightarrow> if m \<noteq> [] then (attributes sp1)(''status.message'' \<mapsto> AStr m)
                       else attributes sp1
           | None \<Rightarrow> attributes sp1)
      \<and> endTime (fst r) = Some (clock w2 (ticks w2))
      \<and> ended (snd r) = ended w2 @ [fst r]"
    if impl1: "impl sp1 = SpanImpl"
  proof -
    have sp2: "sp2 = sp1\<lparr>status := st,
              attributes := (case msg of
                               Some m \<Rightarrow> if m \<noteq> [] then (attributes sp1)(''status.message'' \<mapsto> AStr m)
                                         else attributes sp1
                             | None \<Rightarrow> attributes sp1)\<rparr>"
      unfolding sp2_def by (simp add: Span_setStatus_SpanImpl [OF impl1])
    have impl2: "impl sp2 = SpanImpl" using impl1 by (simp add: sp2)
    from Span_end_SpanImpl(1,2) [OF impl2, of h t2 w2] show ?thesis
      unfolding r_def [symmetric] by (simp add: sp2)
  qed
  have noop: "fst r = sp1 \<and> snd r = w2" if impl1: "impl sp1 = NoopSpan"
    unfolding r_def sp2_def
    by (simp add: Span_setStatus_Noop [OF impl1] Span_end_Noop [OF impl1])
  show ?thesis
    unfolding unfold using sampled noop
    by (cases outcome) (simp_all add: st_def msg_def)
qed

theorem trace_completes_span_witness:
  "impl (fst (Tracer_startSpan ''job'' no_options (Tracer_new (example_tracer_config None))
            example_world)) = SpanImpl
   \<and> fst (Tracer_trace example_host ''job'' throwing_fn no_options
            (Tracer_new (example_tracer_config None)) example_world) = Inl error_x
   \<and> status (fst (snd (Tracer_trace example_host ''job'' throwing_fn no_options
            (Tracer_new (example_tracer_config None)) example_world))) = StatusError
   \<and> attributes (fst (snd (Tracer_trace example_host ''job'' throwing_fn no_options
            (Tracer_new (example_tracer_config None)) example_world))) ''status.message''
       = Some (AStr ''x'')
   \<and> length (ended (snd (snd (snd (Tracer_trace example_host ''job'' throwing_fn no_options
            (Tracer_new (example_tracer_config None)) example_world))))) = 1
   \<and> impl (fst (Tracer_startSpan ''job'' no_options
            (Tracer_new (example_tracer_config (Some (1 / 4)))) example_world)) = NoopSpan
   \<and> fst (Tracer_trace example_host ''job'' returning_fn no_options
            (Tracer_new (example_tracer_config (Some (1 / 4)))) example_world) = Inr 42
   \<and> fst (snd (Tracer_trace example_host ''job'' returning_fn no_options
            (Tracer_new (example_tracer_config (Some (1 / 4)))) example_world))
       = noop_span ''job''"
proof -
  let ?X = "Tracer_startSpan ''job'' no_options (Tracer_new (example_tracer_config None))
              example_world"
  let ?Y = "Tracer_startSpan ''job'' no_options
              (Tracer_new (example_tracer_config (Some (1 / 4)))) example_world"
  have startX: "?X = (fst ?X, fst (snd ?X), snd (snd ?X))" by simp
  have runX: "throwing_fn (fst ?X) (fst (snd ?X)) (snd (snd ?X))
      = (Inl error_x, fst ?X, fst (snd ?X), snd (snd ?X))"
    by (simp add: throwing_fn_def)
  have implX: "impl (fst ?X) = SpanImpl" by (simp add: impl_startSpan or_one_def)
  have endedX: "ended (snd (snd ?X)) = []" by (simp add: ended_startSpan)
  have startY: "?Y = (fst ?Y, fst (snd ?Y), snd (snd ?Y))" by simp
  have runY: "returning_fn (fst ?Y) (fst (snd ?Y)) (snd (snd ?Y))
      = (Inr 42, fst ?Y, fst (snd ?Y), snd (snd ?Y))"
    by (simp add: returning_fn_def)
  have implY: "impl (fst ?Y) = NoopSpan" by (simp add: impl_startSpan or_one_def)
  have spanY: "fst ?Y = noop_span ''job''" by (simp add: startSpan_rejected or_one_def)
  show ?thesis
    using trace_completes_span [where fn = throwing_fn and h = example_host, OF startX runX]
      trace_completes_span [where fn = returning_fn and h = example_host, OF startY runY]
      implX endedX implY spanY
    by (simp add: message_of_def error_x_def split: prod.splits)
qed

section \<open>Logger: properties\<close>

subsection \<open>What a logging call does\<close>





subsection \<open>Formatting\<close>




lemma serializable_optional_string [simp]: "serializable (optional_string x)"
  by (cases x) (simp_all add: optional_string_def)




lemma example_logger_simps [simp]:
  "level (lconfig (Logger_new h (example_logger_config d))) = Info"
  "destination (lconfig (Logger_new h (example_logger_config d))) = d"
  "pretty (lconfig (Logger_new h (example_logger_config d))) = False"
  "customHandler (lconfig (Logger_new h (example_logger_config d))) = throwing_handler"
  "service (lconfig (Logger_new h (example_logger_config d))) = ''svc''"
  by (simp_all add: Logger_new_def example_logger_config_def)

text \<open>
  In the JSON format the context is spread after the four fixed properties, so a context
  key named \<^verbatim>\<open>level\<close> replaces the level in the text.
\<close>

lemma json_record_context_overrides_level:
  "map_of (json_record example_host
      \<lparr>entry_level = Warn, entry_message = ''disk'', entry_timestamp = 1000,
       entry_service = ''svc'', entry_context = Some [(''level'', JStr ''debug'')],
       entry_error = None, entry_traceId = None, entry_spanId = None\<rparr>) ''level''
   = Some (JStr ''debug'')"
  by (simp add: json_record_def Let_def optional_string_def)

subsection \<open>Level filtering\<close>




subsection \<open>Exceptions\<close>




end
